theory Spec2Isabelle
  imports Complex_Main
begin

section \<open>Python strings and the character classes of the standard library\<close>

text \<open>
  A Python \<open>str\<close> is a sequence of Unicode code points; \<open>len\<close> counts code points.
  A code point is a natural number, a string a list of them.
\<close>

type_synonym codepoint = nat
type_synonym pystr = "codepoint list"

definition py_str :: "string \<Rightarrow> pystr" where
  "py_str s = map of_char s"

text \<open>The constants of the module \<open>string\<close> that the program reads.\<close>

definition ascii_uppercase :: pystr where
  "ascii_uppercase = py_str ''ABCDEFGHIJKLMNOPQRSTUVWXYZ''"

definition ascii_lowercase :: pystr where
  "ascii_lowercase = py_str ''abcdefghijklmnopqrstuvwxyz''"

definition digits :: pystr where
  "digits = py_str ''0123456789''"

text \<open>
  \<open>string.punctuation\<close>, by code point: U+0021 to U+002F, U+003A to U+0040,
  U+005B to U+0060 and U+007B to U+007E, in this order.
\<close>

definition punctuation :: pystr where
  "punctuation =
     [0x21, 0x22, 0x23, 0x24, 0x25, 0x26, 0x27, 0x28, 0x29, 0x2A, 0x2B, 0x2C, 0x2D, 0x2E, 0x2F,
      0x3A, 0x3B, 0x3C, 0x3D, 0x3E, 0x3F, 0x40,
      0x5B, 0x5C, 0x5D, 0x5E, 0x5F, 0x60,
      0x7B, 0x7C, 0x7D, 0x7E]"

text \<open>
  \<open>c.isupper()\<close>, \<open>c.islower()\<close> and \<open>c.isdigit()\<close> on a one-character string read
  the Unicode character database: the properties Uppercase and Lowercase, and the
  numeric types Decimal and Digit. The database is not part of the program. Its rows for
  U+0000 to U+00FF (ASCII and Latin-1) are written out below; the rows from U+0100 on are
  a parameter, so that every theorem holds whatever they are.
\<close>

record unicode_data =
  ud_upper :: "codepoint \<Rightarrow> bool"
  ud_lower :: "codepoint \<Rightarrow> bool"
  ud_digit :: "codepoint \<Rightarrow> bool"

definition latin1_upper :: "codepoint \<Rightarrow> bool" where
  "latin1_upper c \<longleftrightarrow>
     0x41 \<le> c \<and> c \<le> 0x5A \<or> 0xC0 \<le> c \<and> c \<le> 0xD6 \<or> 0xD8 \<le> c \<and> c \<le> 0xDE"

definition latin1_lower :: "codepoint \<Rightarrow> bool" where
  "latin1_lower c \<longleftrightarrow>
     0x61 \<le> c \<and> c \<le> 0x7A \<or> c = 0xAA \<or> c = 0xB5 \<or> c = 0xBA \<or>
     0xDF \<le> c \<and> c \<le> 0xF6 \<or> 0xF8 \<le> c \<and> c \<le> 0xFF"

definition latin1_digit :: "codepoint \<Rightarrow> bool" where
  "latin1_digit c \<longleftrightarrow> 0x30 \<le> c \<and> c \<le> 0x39 \<or> c = 0xB2 \<or> c = 0xB3 \<or> c = 0xB9"

definition isupper :: "unicode_data \<Rightarrow> codepoint \<Rightarrow> bool" where
  "isupper u c = (if c < 0x100 then latin1_upper c else ud_upper u c)"

definition islower :: "unicode_data \<Rightarrow> codepoint \<Rightarrow> bool" where
  "islower u c = (if c < 0x100 then latin1_lower c else ud_lower u c)"

definition isdigit :: "unicode_data \<Rightarrow> codepoint \<Rightarrow> bool" where
  "isdigit u c = (if c < 0x100 then latin1_digit c else ud_digit u c)"

text \<open>
  A database with no cased character and no digit from U+0100 on. It stands for the
  parameter where a concrete string of Latin-1 characters is evaluated, which reads
  none of its rows.
\<close>

definition latin1_only :: unicode_data where
  "latin1_only = \<lparr>ud_upper = (\<lambda>c. False), ud_lower = (\<lambda>c. False), ud_digit = (\<lambda>c. False)\<rparr>"

section \<open>The secure randomness source\<close>

text \<open>
  \<open>secrets.choice(seq)\<close> is \<open>SystemRandom().choice(seq)\<close>: it raises \<open>IndexError\<close> on an
  empty sequence and returns \<open>seq[randbelow(len(seq))]\<close> otherwise, where \<open>randbelow\<close>
  reads the operating system's source and may raise. The source is an oracle: the
  outcome of its \<open>k\<close>-th request, asked for a number below \<open>n\<close>, is \<open>src k n\<close>, either a
  number or the exception raised. The count of requests made so far is the state.
\<close>

datatype py_error = IndexError | OSError | NotImplementedError

type_synonym rand_source = "nat \<Rightarrow> nat \<Rightarrow> py_error + nat"

definition secrets_choice :: "rand_source \<Rightarrow> nat \<Rightarrow> 'a list \<Rightarrow> (py_error + 'a) \<times> nat" where
  "secrets_choice src k seq =
     (if length seq = 0 then (Inl IndexError, k)
      else (case src k (length seq) of
              Inl e \<Rightarrow> (Inl e, Suc k)
            | Inr r \<Rightarrow> (if r < length seq then (Inr (seq ! r), Suc k)
                       else (Inl IndexError, Suc k))))"

text \<open>
  The contract of \<open>randbelow\<close>: request \<open>k\<close>, asked for a number below \<open>n\<close>, returns one.
  \<open>draws_ok src n k m\<close> says so of the \<open>m\<close> requests from \<open>k\<close> on.
\<close>

definition draw_ok :: "rand_source \<Rightarrow> nat \<Rightarrow> nat \<Rightarrow> bool" where
  "draw_ok src n k = (case src k n of Inl e \<Rightarrow> False | Inr r \<Rightarrow> r < n)"

fun draws_ok :: "rand_source \<Rightarrow> nat \<Rightarrow> nat \<Rightarrow> nat \<Rightarrow> bool" where
  "draws_ok src n k 0 = True"
| "draws_ok src n k (Suc m) = (draw_ok src n k \<and> draws_ok src n (Suc k) m)"

text \<open>Two sources for concrete runs: one that always answers, one whose third request fails.\<close>

definition demo_source :: rand_source where
  "demo_source k n = Inr ((7 * k + 3) mod n)"

definition failing_source :: rand_source where
  "failing_source k n = (if k = 2 then Inl OSError else Inr (k mod n))"

section \<open>PasswordGenerator.generate\<close>

text \<open>
  The alphabet of \<open>generate\<close>: the empty string, extended by \<open>+=\<close> once for each
  enabled class, in the order of the four \<open>if\<close> statements.
\<close>

definition build_alphabet :: "bool \<Rightarrow> bool \<Rightarrow> bool \<Rightarrow> bool \<Rightarrow> pystr" where
  "build_alphabet use_upper use_lower use_numbers use_symbols =
     (let alphabet = [];
          alphabet = (if use_upper then alphabet @ ascii_uppercase else alphabet);
          alphabet = (if use_lower then alphabet @ ascii_lowercase else alphabet);
          alphabet = (if use_numbers then alphabet @ digits else alphabet);
          alphabet = (if use_symbols then alphabet @ punctuation else alphabet)
      in alphabet)"

text \<open>
  \<open>"".join(secrets.choice(alphabet) for _ in range(length))\<close>: one call of
  \<open>secrets.choice\<close> for each element of the range, in order; an exception raised by a
  call leaves the generator and \<open>join\<close> at once.
\<close>

fun join_choices :: "nat \<Rightarrow> pystr \<Rightarrow> rand_source \<Rightarrow> nat \<Rightarrow> (py_error + pystr) \<times> nat" where
  "join_choices 0 alphabet src k = (Inr [], k)"
| "join_choices (Suc n) alphabet src k =
     (case secrets_choice src k alphabet of
        (Inl e, k') \<Rightarrow> (Inl e, k')
      | (Inr c, k') \<Rightarrow>
          (case join_choices n alphabet src k' of
             (Inl e, k'') \<Rightarrow> (Inl e, k'')
           | (Inr cs, k'') \<Rightarrow> (Inr (c # cs), k'')))"

text \<open>\<open>range(length)\<close> has \<open>length\<close> elements, and none when \<open>length\<close> is negative.\<close>

definition generate ::
  "int \<Rightarrow> bool \<Rightarrow> bool \<Rightarrow> bool \<Rightarrow> bool \<Rightarrow> rand_source \<Rightarrow> nat \<Rightarrow> (py_error + pystr) \<times> nat" where
  "generate length' use_upper use_lower use_numbers use_symbols src k =
     (if \<not> list_ex (\<lambda>b. b) [use_upper, use_lower, use_numbers, use_symbols] then (Inr [], k)
      else join_choices (nat length')
             (build_alphabet use_upper use_lower use_numbers use_symbols) src k)"

section \<open>PasswordGenerator.calculate_strength\<close>

definition log2 :: "real \<Rightarrow> real" where
  "log2 x = log 2 x"

definition pool_size :: "unicode_data \<Rightarrow> pystr \<Rightarrow> nat" where
  "pool_size u password =
     (let pool_size = 0;
          pool_size = (if list_ex (isupper u) password then pool_size + 26 else pool_size);
          pool_size = (if list_ex (islower u) password then pool_size + 26 else pool_size);
          pool_size = (if list_ex (isdigit u) password then pool_size + 10 else pool_size);
          pool_size = (if list_ex (\<lambda>c. c \<in> set punctuation) password
                       then pool_size + 32 else pool_size)
      in pool_size)"

text \<open>
  The entropy is a Python float; the model computes it in the real numbers, where
  \<open>math.log2\<close> is the logarithm to base 2.
\<close>

definition entropy :: "nat \<Rightarrow> nat \<Rightarrow> real" where
  "entropy len pool = real len * log2 (real pool)"

text \<open>The chain of \<open>if\<close> and \<open>elif\<close> that ends the function, on the entropy.\<close>

definition score_entropy :: "real \<Rightarrow> int \<times> string" where
  "score_entropy e =
     (if e < 28 then (0, ''Weak'')
      else if e < 36 then (1, ''Fair'')
      else if e < 60 then (2, ''Good'')
      else if e < 128 then (3, ''Strong'')
      else (4, ''Very Strong''))"

definition calculate_strength :: "unicode_data \<Rightarrow> pystr \<Rightarrow> int \<times> string" where
  "calculate_strength u password =
     (if password = [] then (0, ''Too Short'')
      else if pool_size u password = 0 then (0, ''Weak'')
      else score_entropy (entropy (length password) (pool_size u password)))"

section \<open>The specification's reading of the character classes\<close>

text \<open>
  The specification's data model fixes four classes: the 26 Latin capital letters, the
  26 Latin lowercase letters, the 10 decimal digits and the 32 characters of
  \<open>string.punctuation\<close>. \<open>spec_pool_size\<close> is the pool size in the specification's
  words, \<open>spec_recognized\<close> its recognized characters.
\<close>

definition spec_pool_size :: "pystr \<Rightarrow> nat" where
  "spec_pool_size password =
     (if list_ex (\<lambda>c. c \<in> set ascii_uppercase) password then 26 else 0) +
     (if list_ex (\<lambda>c. c \<in> set ascii_lowercase) password then 26 else 0) +
     (if list_ex (\<lambda>c. c \<in> set digits) password then 10 else 0) +
     (if list_ex (\<lambda>c. c \<in> set punctuation) password then 32 else 0)"

definition spec_recognized :: "codepoint \<Rightarrow> bool" where
  "spec_recognized c \<longleftrightarrow>
     c \<in> set ascii_uppercase \<or> c \<in> set ascii_lowercase \<or> c \<in> set digits \<or>
     c \<in> set punctuation"

text \<open>The characters that one of the four tests of \<open>calculate_strength\<close> accepts.\<close>

definition counted :: "unicode_data \<Rightarrow> codepoint \<Rightarrow> bool" where
  "counted u c \<longleftrightarrow> isupper u c \<or> islower u c \<or> isdigit u c \<or> c \<in> set punctuation"

text \<open>Two passwords for concrete runs: twenty characters of all four classes, twelve symbols.\<close>

definition demo_password :: pystr where
  "demo_password = py_str ''Aa0!Bb1!Cc2!Dd3!Ee4!''"

definition symbols12 :: pystr where
  "symbols12 = replicate 12 0x21"

section \<open>The generator\<close>

lemma build_alphabet_append:
  "build_alphabet a b c d =
     (if a then ascii_uppercase else []) @ (if b then ascii_lowercase else []) @
     (if c then digits else []) @ (if d then punctuation else [])"
  by (simp add: build_alphabet_def)

lemma class_lengths:
  "length ascii_uppercase = 26" "length ascii_lowercase = 26"
  "length digits = 10" "length punctuation = 32"
  by (simp_all add: ascii_uppercase_def ascii_lowercase_def digits_def punctuation_def py_str_def)

lemma build_alphabet_nonempty:
  "a \<or> b \<or> c \<or> d \<Longrightarrow> build_alphabet a b c d \<noteq> []"
  using class_lengths by (auto simp: build_alphabet_append)

lemma secrets_choice_ok:
  assumes "draw_ok src (length seq) k"
  shows "\<exists>c \<in> set seq. secrets_choice src k seq = (Inr c, Suc k)"
proof -
  from assms obtain r where r: "src k (length seq) = Inr r" "r < length seq"
    by (auto simp: draw_ok_def split: sum.splits)
  then have "secrets_choice src k seq = (Inr (seq ! r), Suc k)"
    by (auto simp: secrets_choice_def)
  with r show ?thesis by auto
qed

text \<open>With \<open>n\<close> good draws the loop returns \<open>n\<close> characters of the alphabet.\<close>

lemma join_choices_ok:
  "draws_ok src (length alphabet) k n \<Longrightarrow>
   \<exists>s. join_choices n alphabet src k = (Inr s, k + n) \<and> length s = n \<and> set s \<subseteq> set alphabet"
proof (induction n arbitrary: k)
  case 0
  then show ?case by simp
next
  case (Suc n)
  from Suc.prems have d: "draw_ok src (length alphabet) k"
    and ds: "draws_ok src (length alphabet) (Suc k) n"
    by simp_all
  from secrets_choice_ok [OF d] obtain c
    where c: "c \<in> set alphabet" "secrets_choice src k alphabet = (Inr c, Suc k)" by blast
  from Suc.IH [OF ds] obtain s
    where s: "join_choices n alphabet src (Suc k) = (Inr s, Suc k + n)"
      "length s = n" "set s \<subseteq> set alphabet" by blast
  have "join_choices (Suc n) alphabet src k = (Inr (c # s), k + Suc n)"
    using c s by simp
  moreover have "length (c # s) = Suc n" using s by simp
  moreover have "set (c # s) \<subseteq> set alphabet" using c s by simp
  ultimately show ?case by blast
qed

text \<open>The first failing draw ends the loop with its exception, after \<open>i + 1\<close> requests.\<close>

lemma join_choices_fail:
  "alphabet \<noteq> [] \<Longrightarrow> i < n \<Longrightarrow> draws_ok src (length alphabet) k i \<Longrightarrow>
   src (k + i) (length alphabet) = Inl e \<Longrightarrow>
   join_choices n alphabet src k = (Inl e, Suc (k + i))"
proof (induction n arbitrary: k i)
  case 0
  then show ?case by simp
next
  case (Suc n)
  show ?case
  proof (cases i)
    case 0
    with Suc.prems show ?thesis by (simp add: secrets_choice_def)
  next
    case (Suc j)
    with Suc.prems have d: "draw_ok src (length alphabet) k"
      and ds: "draws_ok src (length alphabet) (Suc k) j"
      by simp_all
    from secrets_choice_ok [OF d] obtain c
      where c: "secrets_choice src k alphabet = (Inr c, Suc k)" by blast
    have "join_choices n alphabet src (Suc k) = (Inl e, Suc (Suc k + j))"
      using Suc.prems Suc ds by (intro Suc.IH) simp_all
    with c Suc show ?thesis by simp
  qed
qed

text \<open>
  Claim C1. For every class selection with at least one class enabled and every length
  \<open>L \<ge> 1\<close>, \<open>generate\<close> returns a string of exactly \<open>L\<close> characters, and every
  character of the result is a member of the alphabet concatenated from the enabled
  classes' character sets. The randomness source is assumed to keep its contract on
  the \<open>L\<close> requests the call makes: each returns a number below the alphabet's length.
  The call then makes exactly \<open>L\<close> requests.
\<close>

theorem generate_length_and_members:
  assumes "use_upper \<or> use_lower \<or> use_numbers \<or> use_symbols"
    and "1 \<le> L"
    and "draws_ok src (length (build_alphabet use_upper use_lower use_numbers use_symbols)) k (nat L)"
  shows "\<exists>s. generate L use_upper use_lower use_numbers use_symbols src k = (Inr s, k + nat L) \<and>
           int (length s) = L \<and>
           set s \<subseteq> set ((if use_upper then ascii_uppercase else []) @
                          (if use_lower then ascii_lowercase else []) @
                          (if use_numbers then digits else []) @
                          (if use_symbols then punctuation else []))"
proof -
  let ?A = "build_alphabet use_upper use_lower use_numbers use_symbols"
  from join_choices_ok [OF assms(3)] obtain s
    where s: "join_choices (nat L) ?A src k = (Inr s, k + nat L)"
      "length s = nat L" "set s \<subseteq> set ?A" by blast
  have "generate L use_upper use_lower use_numbers use_symbols src k = (Inr s, k + nat L)"
    using assms(1) s(1) by (auto simp: generate_def)
  moreover have "int (length s) = L" using s(2) assms(2) by simp
  moreover note s(3) [unfolded build_alphabet_append]
  ultimately show ?thesis by blast
qed

theorem generate_length_and_members_witness:
  "(False \<or> False \<or> True \<or> False) \<and> 1 \<le> (4::int) \<and>
   draws_ok demo_source (length (build_alphabet False False True False)) 0 (nat 4) \<and>
   generate 4 False False True False demo_source 0 = (Inr (py_str ''3074''), 4)"
proof -
  have d: "draws_ok demo_source (length (build_alphabet False False True False)) 0 (nat 4)"
    by code_simp
  have g: "generate 4 False False True False demo_source 0 = (Inr (py_str ''3074''), 4)"
    by code_simp
  from generate_length_and_members [of False False True False 4 demo_source 0] d
  have "\<exists>s. generate 4 False False True False demo_source 0 = (Inr s, 0 + nat 4) \<and>
          int (length s) = 4 \<and> set s \<subseteq> set digits"
    by simp
  with d g show ?thesis by simp
qed

text \<open>
  Claim C6. On degenerate input \<open>generate\<close> returns the empty string and raises
  nothing: with no class enabled whatever the length, and with a length of zero or less
  whatever the classes. It makes no request to the randomness source.
\<close>

theorem generate_degenerate:
  "generate L False False False False src k = (Inr [], k) \<and>
   (L \<le> 0 \<longrightarrow> generate L use_upper use_lower use_numbers use_symbols src k = (Inr [], k))"
  by (simp add: generate_def)

theorem generate_degenerate_witness:
  "generate 12 False False False False failing_source 0 = (Inr [], 0) \<and>
   (-3::int) \<le> 0 \<and> generate (-3) True True True True failing_source 0 = (Inr [], 0)"
  using generate_degenerate [of 12 failing_source 0]
    generate_degenerate [of "-3" failing_source 0 True True True True]
  by simp

text \<open>
  Claim C7. The alphabet is the concatenation of the enabled classes' character sets in
  the order uppercase, lowercase, digits, symbols; with only the digits enabled it is
  the ten characters \<open>0123456789\<close>. It is a function of the four flags alone, so two
  calls with the same flags build the same alphabet.
\<close>

theorem alphabet_fixed_order:
  "build_alphabet use_upper use_lower use_numbers use_symbols =
     (if use_upper then ascii_uppercase else []) @ (if use_lower then ascii_lowercase else []) @
     (if use_numbers then digits else []) @ (if use_symbols then punctuation else []) \<and>
   build_alphabet False False True False = py_str ''0123456789''"
  by (simp add: build_alphabet_append digits_def)

text \<open>
  Claim C9. \<open>generate\<close> neither retries nor recovers: when the source fails on a request,
  after \<open>i\<close> good draws, the call ends with that very failure and not with a password,
  and it has made \<open>i + 1\<close> requests, none after the failing one.
\<close>

theorem generate_failure_propagates:
  assumes "use_upper \<or> use_lower \<or> use_numbers \<or> use_symbols"
    and "i < nat L"
    and "draws_ok src (length (build_alphabet use_upper use_lower use_numbers use_symbols)) k i"
    and "src (k + i) (length (build_alphabet use_upper use_lower use_numbers use_symbols)) = Inl e"
  shows "generate L use_upper use_lower use_numbers use_symbols src k = (Inl e, Suc (k + i))"
proof -
  have "build_alphabet use_upper use_lower use_numbers use_symbols \<noteq> []"
    using assms(1) by (rule build_alphabet_nonempty)
  from join_choices_fail [OF this assms(2) assms(3) assms(4)] assms(1)
  show ?thesis by (auto simp: generate_def)
qed

theorem generate_failure_propagates_witness:
  "(False \<or> False \<or> True \<or> False) \<and> 2 < nat 8 \<and>
   draws_ok failing_source (length (build_alphabet False False True False)) 0 2 \<and>
   failing_source (0 + 2) (length (build_alphabet False False True False)) = Inl OSError \<and>
   generate 8 False False True False failing_source 0 = (Inl OSError, 3)"
proof -
  have d: "draws_ok failing_source (length (build_alphabet False False True False)) 0 2"
    by code_simp
  have f: "failing_source (0 + 2) (length (build_alphabet False False True False)) = Inl OSError"
    by (simp add: failing_source_def)
  from generate_failure_propagates [of False False True False 2 8 failing_source 0 OSError] d f
  show ?thesis by simp
qed

section \<open>The character classes on ASCII\<close>

lemma in_ascii_uppercase: "c \<in> set ascii_uppercase \<longleftrightarrow> 0x41 \<le> c \<and> c \<le> 0x5A"
  by (simp add: ascii_uppercase_def py_str_def) arith

lemma in_ascii_lowercase: "c \<in> set ascii_lowercase \<longleftrightarrow> 0x61 \<le> c \<and> c \<le> 0x7A"
  by (simp add: ascii_lowercase_def py_str_def) arith

lemma in_digits: "c \<in> set digits \<longleftrightarrow> 0x30 \<le> c \<and> c \<le> 0x39"
  by (simp add: digits_def py_str_def) arith

lemma in_punctuation:
  "c \<in> set punctuation \<longleftrightarrow>
     0x21 \<le> c \<and> c \<le> 0x2F \<or> 0x3A \<le> c \<and> c \<le> 0x40 \<or>
     0x5B \<le> c \<and> c \<le> 0x60 \<or> 0x7B \<le> c \<and> c \<le> 0x7E"
  by (simp add: punctuation_def) arith

text \<open>On ASCII the three tests of Python are membership of the specification's classes.\<close>

lemma ascii_isupper: "c < 0x80 \<Longrightarrow> isupper u c \<longleftrightarrow> c \<in> set ascii_uppercase"
  by (auto simp: isupper_def latin1_upper_def in_ascii_uppercase)

lemma ascii_islower: "c < 0x80 \<Longrightarrow> islower u c \<longleftrightarrow> c \<in> set ascii_lowercase"
  by (auto simp: islower_def latin1_lower_def in_ascii_lowercase)

lemma ascii_isdigit: "c < 0x80 \<Longrightarrow> isdigit u c \<longleftrightarrow> c \<in> set digits"
  by (auto simp: isdigit_def latin1_digit_def in_digits)

lemma class_isupper: "c \<in> set ascii_uppercase \<Longrightarrow> isupper u c"
  by (simp add: in_ascii_uppercase isupper_def latin1_upper_def)

lemma class_islower: "c \<in> set ascii_lowercase \<Longrightarrow> islower u c"
  by (simp add: in_ascii_lowercase islower_def latin1_lower_def)

lemma class_isdigit: "c \<in> set digits \<Longrightarrow> isdigit u c"
  by (simp add: in_digits isdigit_def latin1_digit_def)

lemma list_ex_mono: "list_ex P xs \<Longrightarrow> (\<And>x. P x \<Longrightarrow> Q x) \<Longrightarrow> list_ex Q xs"
  by (auto simp: list_ex_iff)

lemma list_ex_ascii:
  assumes "list_all (\<lambda>c. c < 0x80) password" and "\<And>c. c < 0x80 \<Longrightarrow> P c \<longleftrightarrow> Q c"
  shows "list_ex P password \<longleftrightarrow> list_ex Q password"
  using assms by (auto simp: list_ex_iff list_all_iff)

section \<open>One draw for each character\<close>

text \<open>
  The program's share in the uniformity of the password: the alphabet holds no
  character twice, and the \<open>j\<close>-th character of the result is the alphabet's entry at the
  \<open>j\<close>-th draw. Draws that are uniform on the indices so give characters that are
  uniform on the alphabet. How the draws are distributed is a matter of the source.
\<close>

lemma class_distinct:
  "distinct ascii_uppercase" "distinct ascii_lowercase" "distinct digits" "distinct punctuation"
  by (simp_all add: ascii_uppercase_def ascii_lowercase_def digits_def punctuation_def py_str_def)

lemma class_disjoint:
  "set ascii_uppercase \<inter> set ascii_lowercase = {}"
  "set ascii_uppercase \<inter> set digits = {}"
  "set ascii_uppercase \<inter> set punctuation = {}"
  "set ascii_lowercase \<inter> set digits = {}"
  "set ascii_lowercase \<inter> set punctuation = {}"
  "set digits \<inter> set punctuation = {}"
  by (auto simp: in_ascii_uppercase in_ascii_lowercase in_digits in_punctuation
      simp del: set_simps)

lemma build_alphabet_distinct: "distinct (build_alphabet a b c d)"
  using class_distinct class_disjoint
  by (auto simp: build_alphabet_append Int_commute simp del: set_simps)

lemma join_choices_reads:
  "draws_ok src (length alphabet) k n \<Longrightarrow>
   join_choices n alphabet src k =
     (Inr (map (\<lambda>j. alphabet ! projr (src (k + j) (length alphabet))) [0..<n]), k + n)"
proof (induction n arbitrary: k)
  case 0
  then show ?case by simp
next
  case (Suc n)
  from Suc.prems have d: "draw_ok src (length alphabet) k"
    and ds: "draws_ok src (length alphabet) (Suc k) n"
    by simp_all
  from d obtain r where r: "src k (length alphabet) = Inr r" "r < length alphabet"
    by (auto simp: draw_ok_def split: sum.splits)
  then have c: "secrets_choice src k alphabet = (Inr (alphabet ! r), Suc k)"
    by (auto simp: secrets_choice_def)
  have "[0..<Suc n] = 0 # map Suc [0..<n]"
    by (simp add: upt_conv_Cons map_Suc_upt del: upt_Suc)
  then have "map (\<lambda>j. alphabet ! projr (src (k + j) (length alphabet))) [0..<Suc n]
      = alphabet ! r # map (\<lambda>j. alphabet ! projr (src (Suc k + j) (length alphabet))) [0..<n]"
    using r by (simp add: comp_def del: upt_Suc)
  with c Suc.IH [OF ds] show ?case by (simp del: upt_Suc)
qed

section \<open>The pool size\<close>

lemma pool_size_sum:
  "pool_size u password =
     (if list_ex (isupper u) password then 26 else 0) +
     (if list_ex (islower u) password then 26 else 0) +
     (if list_ex (isdigit u) password then 10 else 0) +
     (if list_ex (\<lambda>c. c \<in> set punctuation) password then 32 else 0)"
  by (simp add: pool_size_def)

lemma pool_size_ascii:
  assumes "list_all (\<lambda>c. c < 0x80) password"
  shows "pool_size u password = spec_pool_size password"
proof -
  have "list_ex (isupper u) password \<longleftrightarrow> list_ex (\<lambda>c. c \<in> set ascii_uppercase) password"
    using assms by (rule list_ex_ascii) (rule ascii_isupper)
  moreover
  have "list_ex (islower u) password \<longleftrightarrow> list_ex (\<lambda>c. c \<in> set ascii_lowercase) password"
    using assms by (rule list_ex_ascii) (rule ascii_islower)
  moreover
  have "list_ex (isdigit u) password \<longleftrightarrow> list_ex (\<lambda>c. c \<in> set digits) password"
    using assms by (rule list_ex_ascii) (rule ascii_isdigit)
  ultimately show ?thesis
    by (simp only: pool_size_sum spec_pool_size_def)
qed

lemma pool_size_values:
  "pool_size u password \<in> {0, 10, 26, 32, 36, 42, 52, 58, 62, 68, 84, 94}"
  by (simp add: pool_size_sum)

lemma pool_size_append_mono: "pool_size u p \<le> pool_size u (p @ q)"
  by (simp add: pool_size_sum)

lemma pool_size_uncounted:
  assumes "\<not> counted u c"
  shows "pool_size u (xs @ [c] @ ys) = pool_size u (xs @ ys)"
proof -
  from assms have "\<not> isupper u c" "\<not> islower u c" "\<not> isdigit u c" "\<not> c \<in> set punctuation"
    by (simp_all add: counted_def)
  then have "list_ex (isupper u) (xs @ [c] @ ys) = list_ex (isupper u) (xs @ ys)"
    "list_ex (islower u) (xs @ [c] @ ys) = list_ex (islower u) (xs @ ys)"
    "list_ex (isdigit u) (xs @ [c] @ ys) = list_ex (isdigit u) (xs @ ys)"
    "list_ex (\<lambda>c. c \<in> set punctuation) (xs @ [c] @ ys)
       = list_ex (\<lambda>c. c \<in> set punctuation) (xs @ ys)"
    by (auto simp: list_ex_iff)
  then show ?thesis
    by (simp only: pool_size_sum)
qed

lemma pool_size_none_counted:
  assumes "\<not> list_ex (counted u) password"
  shows "pool_size u password = 0"
proof -
  have "\<not> list_ex (isupper u) password" "\<not> list_ex (islower u) password"
    "\<not> list_ex (isdigit u) password" "\<not> list_ex (\<lambda>c. c \<in> set punctuation) password"
    using assms by (auto simp: list_ex_iff counted_def)
  then show ?thesis by (simp add: pool_size_sum)
qed

lemma counted_ascii: "c < 0x80 \<Longrightarrow> counted u c = spec_recognized c"
  by (simp add: counted_def spec_recognized_def ascii_isupper ascii_islower ascii_isdigit)

lemma whitespace_not_counted: "\<not> counted u 0x20" "\<not> counted u 0x09" "\<not> counted u 0x0A"
  by (simp_all add: counted_def isupper_def islower_def isdigit_def
      latin1_upper_def latin1_lower_def latin1_digit_def in_punctuation)

section \<open>The entropy and its thresholds\<close>

text \<open>
  A comparison of the entropy with a whole number of bits is a comparison of natural
  numbers: \<open>n * log2 p < t\<close> exactly when \<open>p ^ n < 2 ^ t\<close>. Concrete passwords are
  scored through it.
\<close>

lemma entropy_less_iff:
  assumes "0 < p"
  shows "entropy n p < real t \<longleftrightarrow> p ^ n < 2 ^ t"
proof -
  have "entropy n p = log 2 (real (p ^ n))"
    using assms by (simp add: entropy_def log2_def log_nat_power)
  also have "\<dots> < real t \<longleftrightarrow> real (p ^ n) < 2 powr real t"
    using assms by (intro log_less_iff) simp_all
  also have "\<dots> \<longleftrightarrow> real (p ^ n) < real (2 ^ t)"
    by (simp add: powr_realpow)
  also have "\<dots> \<longleftrightarrow> p ^ n < 2 ^ t"
    by (simp only: of_nat_less_iff)
  finally show ?thesis .
qed

lemma score_entropy_nat:
  assumes "0 < p"
  shows "score_entropy (entropy n p) =
     (if p ^ n < 2 ^ 28 then (0, ''Weak'')
      else if p ^ n < 2 ^ 36 then (1, ''Fair'')
      else if p ^ n < 2 ^ 60 then (2, ''Good'')
      else if p ^ n < 2 ^ 128 then (3, ''Strong'')
      else (4, ''Very Strong''))"
  using entropy_less_iff [OF assms, of n 28] entropy_less_iff [OF assms, of n 36]
    entropy_less_iff [OF assms, of n 60] entropy_less_iff [OF assms, of n 128]
  unfolding score_entropy_def by simp

lemma score_entropy_table:
  "e < 28 \<Longrightarrow> score_entropy e = (0, ''Weak'')"
  "28 \<le> e \<Longrightarrow> e < 36 \<Longrightarrow> score_entropy e = (1, ''Fair'')"
  "36 \<le> e \<Longrightarrow> e < 60 \<Longrightarrow> score_entropy e = (2, ''Good'')"
  "60 \<le> e \<Longrightarrow> e < 128 \<Longrightarrow> score_entropy e = (3, ''Strong'')"
  "128 \<le> e \<Longrightarrow> score_entropy e = (4, ''Very Strong'')"
  by (simp_all add: score_entropy_def)

lemma score_entropy_mono: "e \<le> e' \<Longrightarrow> fst (score_entropy e) \<le> fst (score_entropy e')"
  by (simp add: score_entropy_def)

lemma score_entropy_nonneg: "0 \<le> fst (score_entropy e)"
  by (simp add: score_entropy_def)

lemma entropy_mono:
  assumes "0 < p" and "p \<le> p'" and "n \<le> n'"
  shows "entropy n p \<le> entropy n' p'"
proof -
  have "log 2 (real p) \<le> log 2 (real p')"
    using assms(1,2) by (simp add: log_le_cancel_iff)
  moreover have "0 \<le> log 2 (real p)"
    using assms(1) by (simp add: zero_le_log_cancel_iff)
  moreover have "real n \<le> real n'" using assms(3) by simp
  ultimately have "real n * log 2 (real p) \<le> real n' * log 2 (real p')"
    by (intro mult_mono) simp_all
  then show ?thesis by (simp add: entropy_def log2_def)
qed

lemma entropy_12_32: "entropy 12 32 = 60"
proof -
  have "log 2 (real 32) = log 2 (2 ^ 5)" by simp
  also have "\<dots> = 5" by (simp only: log_pow_cancel)
  finally show ?thesis by (simp add: entropy_def log2_def)
qed

lemma strength_nonempty:
  "password \<noteq> [] \<Longrightarrow> pool_size u password \<noteq> 0 \<Longrightarrow>
   calculate_strength u password = score_entropy (entropy (length password) (pool_size u password))"
  by (simp add: calculate_strength_def)

section \<open>The entropy keeps its distance from the thresholds\<close>

text \<open>
  The program computes the entropy in floating point, the model in the real numbers.
  The two take the same branch when the real entropy is not close to a threshold. It
  never is: for every pool size the program can reach and every length, the entropy is
  at least an eighth of a bit away from each of 28, 36, 60 and 128, but for twelve
  characters of pool size 32, whose entropy is 60, the product of the integers 12 and 5.
\<close>

lemma entropy_times: "entropy (k * n) p = real k * entropy n p"
  by (simp add: entropy_def)

lemma entropy_below:
  assumes "0 < p" and "p ^ (8 * n) < 2 ^ (8 * t - 1)" and "0 < t"
  shows "entropy n p < real t - 1 / 8"
proof -
  have "entropy (8 * n) p < real (8 * t - 1)"
    using assms(1,2) by (simp only: entropy_less_iff)
  also have "real (8 * t - 1) = 8 * real t - 1"
    using assms(3) by (simp add: of_nat_diff)
  finally show ?thesis by (simp add: entropy_times)
qed

lemma entropy_above:
  assumes "0 < p" and "2 ^ (8 * t + 1) \<le> p ^ (8 * n)"
  shows "real t + 1 / 8 \<le> entropy n p"
proof -
  have "\<not> entropy (8 * n) p < real (8 * t + 1)"
    using assms by (simp only: entropy_less_iff not_less)
  then show ?thesis by (simp add: entropy_times)
qed

lemma margin_step:
  fixes p :: nat
  assumes "0 < p" and "0 < t"
    and "p ^ (8 * m) < 2 ^ (8 * t - 1)" and "2 ^ (8 * t + 1) \<le> p ^ (8 * m')"
    and "n \<le> m \<or> m' \<le> n"
  shows "entropy n p < real t - 1 / 8 \<or> real t + 1 / 8 \<le> entropy n p"
  using assms(5)
proof
  assume "n \<le> m"
  then have "p ^ (8 * n) \<le> p ^ (8 * m)"
    using assms(1) by (intro power_increasing) simp_all
  with assms(3) have "p ^ (8 * n) < 2 ^ (8 * t - 1)" by simp
  with assms(1,2) show ?thesis by (simp add: entropy_below)
next
  assume "m' \<le> n"
  then have "p ^ (8 * m') \<le> p ^ (8 * n)"
    using assms(1) by (intro power_increasing) simp_all
  with assms(4) have "2 ^ (8 * t + 1) \<le> p ^ (8 * n)" by simp
  with assms(1) show ?thesis by (simp add: entropy_above)
qed

text \<open>Between the lengths \<open>m\<close> and \<open>m + 1\<close> the entropy jumps over the threshold \<open>t\<close>.\<close>

lemma margin_next:
  fixes p :: nat
  assumes "0 < p" and "0 < t"
    and "p ^ (8 * m) < 2 ^ (8 * t - 1)" and "2 ^ (8 * t + 1) \<le> p ^ (8 * Suc m)"
  shows "entropy n p < real t - 1 / 8 \<or> real t + 1 / 8 \<le> entropy n p"
proof -
  have "n \<le> m \<or> Suc m \<le> n" by arith
  with assms show ?thesis by (rule margin_step)
qed

lemma margin_skip:
  fixes p :: nat
  assumes "0 < p" and "0 < t"
    and "p ^ (8 * m) < 2 ^ (8 * t - 1)" and "2 ^ (8 * t + 1) \<le> p ^ (8 * Suc (Suc m))"
    and "n \<noteq> Suc m"
  shows "entropy n p < real t - 1 / 8 \<or> real t + 1 / 8 \<le> entropy n p"
proof -
  have "n \<le> m \<or> Suc (Suc m) \<le> n" using assms(5) by arith
  with assms(1-4) show ?thesis by (rule margin_step)
qed

lemma margin_10:
  "entropy n 10 < 28 - 1 / 8 \<or> 28 + 1 / 8 \<le> entropy n 10"
  "entropy n 10 < 36 - 1 / 8 \<or> 36 + 1 / 8 \<le> entropy n 10"
  "entropy n 10 < 60 - 1 / 8 \<or> 60 + 1 / 8 \<le> entropy n 10"
  "entropy n 10 < 128 - 1 / 8 \<or> 128 + 1 / 8 \<le> entropy n 10"
  subgoal using margin_next [of 10 28 8 n] by simp
  subgoal using margin_next [of 10 36 10 n] by simp
  subgoal using margin_next [of 10 60 18 n] by simp
  subgoal using margin_next [of 10 128 38 n] by simp
  done

lemma margin_26:
  "entropy n 26 < 28 - 1 / 8 \<or> 28 + 1 / 8 \<le> entropy n 26"
  "entropy n 26 < 36 - 1 / 8 \<or> 36 + 1 / 8 \<le> entropy n 26"
  "entropy n 26 < 60 - 1 / 8 \<or> 60 + 1 / 8 \<le> entropy n 26"
  "entropy n 26 < 128 - 1 / 8 \<or> 128 + 1 / 8 \<le> entropy n 26"
  subgoal using margin_next [of 26 28 5 n] by simp
  subgoal using margin_next [of 26 36 7 n] by simp
  subgoal using margin_next [of 26 60 12 n] by simp
  subgoal using margin_next [of 26 128 27 n] by simp
  done

lemma margin_32:
  "entropy n 32 < 28 - 1 / 8 \<or> 28 + 1 / 8 \<le> entropy n 32"
  "entropy n 32 < 36 - 1 / 8 \<or> 36 + 1 / 8 \<le> entropy n 32"
  "n \<noteq> 12 \<Longrightarrow> entropy n 32 < 60 - 1 / 8 \<or> 60 + 1 / 8 \<le> entropy n 32"
  "entropy n 32 < 128 - 1 / 8 \<or> 128 + 1 / 8 \<le> entropy n 32"
  subgoal using margin_next [of 32 28 5 n] by simp
  subgoal using margin_next [of 32 36 7 n] by simp
  subgoal using margin_skip [of 32 60 11 n] by simp
  subgoal using margin_next [of 32 128 25 n] by simp
  done

lemma margin_36:
  "entropy n 36 < 28 - 1 / 8 \<or> 28 + 1 / 8 \<le> entropy n 36"
  "entropy n 36 < 36 - 1 / 8 \<or> 36 + 1 / 8 \<le> entropy n 36"
  "entropy n 36 < 60 - 1 / 8 \<or> 60 + 1 / 8 \<le> entropy n 36"
  "entropy n 36 < 128 - 1 / 8 \<or> 128 + 1 / 8 \<le> entropy n 36"
  subgoal using margin_next [of 36 28 5 n] by simp
  subgoal using margin_next [of 36 36 6 n] by simp
  subgoal using margin_next [of 36 60 11 n] by simp
  subgoal using margin_next [of 36 128 24 n] by simp
  done

lemma margin_42:
  "entropy n 42 < 28 - 1 / 8 \<or> 28 + 1 / 8 \<le> entropy n 42"
  "entropy n 42 < 36 - 1 / 8 \<or> 36 + 1 / 8 \<le> entropy n 42"
  "entropy n 42 < 60 - 1 / 8 \<or> 60 + 1 / 8 \<le> entropy n 42"
  "entropy n 42 < 128 - 1 / 8 \<or> 128 + 1 / 8 \<le> entropy n 42"
  subgoal using margin_next [of 42 28 5 n] by simp
  subgoal using margin_next [of 42 36 6 n] by simp
  subgoal using margin_next [of 42 60 11 n] by simp
  subgoal using margin_next [of 42 128 23 n] by simp
  done

lemma margin_52:
  "entropy n 52 < 28 - 1 / 8 \<or> 28 + 1 / 8 \<le> entropy n 52"
  "entropy n 52 < 36 - 1 / 8 \<or> 36 + 1 / 8 \<le> entropy n 52"
  "entropy n 52 < 60 - 1 / 8 \<or> 60 + 1 / 8 \<le> entropy n 52"
  "entropy n 52 < 128 - 1 / 8 \<or> 128 + 1 / 8 \<le> entropy n 52"
  subgoal using margin_next [of 52 28 4 n] by simp
  subgoal using margin_next [of 52 36 6 n] by simp
  subgoal using margin_next [of 52 60 10 n] by simp
  subgoal using margin_next [of 52 128 22 n] by simp
  done

lemma margin_58:
  "entropy n 58 < 28 - 1 / 8 \<or> 28 + 1 / 8 \<le> entropy n 58"
  "entropy n 58 < 36 - 1 / 8 \<or> 36 + 1 / 8 \<le> entropy n 58"
  "entropy n 58 < 60 - 1 / 8 \<or> 60 + 1 / 8 \<le> entropy n 58"
  "entropy n 58 < 128 - 1 / 8 \<or> 128 + 1 / 8 \<le> entropy n 58"
  subgoal using margin_next [of 58 28 4 n] by simp
  subgoal using margin_next [of 58 36 6 n] by simp
  subgoal using margin_next [of 58 60 10 n] by simp
  subgoal using margin_next [of 58 128 21 n] by simp
  done

lemma margin_62:
  "entropy n 62 < 28 - 1 / 8 \<or> 28 + 1 / 8 \<le> entropy n 62"
  "entropy n 62 < 36 - 1 / 8 \<or> 36 + 1 / 8 \<le> entropy n 62"
  "entropy n 62 < 60 - 1 / 8 \<or> 60 + 1 / 8 \<le> entropy n 62"
  "entropy n 62 < 128 - 1 / 8 \<or> 128 + 1 / 8 \<le> entropy n 62"
  subgoal using margin_next [of 62 28 4 n] by simp
  subgoal using margin_next [of 62 36 6 n] by simp
  subgoal using margin_next [of 62 60 10 n] by simp
  subgoal using margin_next [of 62 128 21 n] by simp
  done

lemma margin_68:
  "entropy n 68 < 28 - 1 / 8 \<or> 28 + 1 / 8 \<le> entropy n 68"
  "entropy n 68 < 36 - 1 / 8 \<or> 36 + 1 / 8 \<le> entropy n 68"
  "entropy n 68 < 60 - 1 / 8 \<or> 60 + 1 / 8 \<le> entropy n 68"
  "entropy n 68 < 128 - 1 / 8 \<or> 128 + 1 / 8 \<le> entropy n 68"
  subgoal using margin_next [of 68 28 4 n] by simp
  subgoal using margin_next [of 68 36 5 n] by simp
  subgoal using margin_next [of 68 60 9 n] by simp
  subgoal using margin_next [of 68 128 21 n] by simp
  done

lemma margin_84:
  "entropy n 84 < 28 - 1 / 8 \<or> 28 + 1 / 8 \<le> entropy n 84"
  "entropy n 84 < 36 - 1 / 8 \<or> 36 + 1 / 8 \<le> entropy n 84"
  "entropy n 84 < 60 - 1 / 8 \<or> 60 + 1 / 8 \<le> entropy n 84"
  "entropy n 84 < 128 - 1 / 8 \<or> 128 + 1 / 8 \<le> entropy n 84"
  subgoal using margin_next [of 84 28 4 n] by simp
  subgoal using margin_next [of 84 36 5 n] by simp
  subgoal using margin_next [of 84 60 9 n] by simp
  subgoal using margin_next [of 84 128 20 n] by simp
  done

lemma margin_94:
  "entropy n 94 < 28 - 1 / 8 \<or> 28 + 1 / 8 \<le> entropy n 94"
  "entropy n 94 < 36 - 1 / 8 \<or> 36 + 1 / 8 \<le> entropy n 94"
  "entropy n 94 < 60 - 1 / 8 \<or> 60 + 1 / 8 \<le> entropy n 94"
  "entropy n 94 < 128 - 1 / 8 \<or> 128 + 1 / 8 \<le> entropy n 94"
  subgoal using margin_next [of 94 28 4 n] by simp
  subgoal using margin_next [of 94 36 5 n] by simp
  subgoal using margin_next [of 94 60 9 n] by simp
  subgoal using margin_next [of 94 128 19 n] by simp
  done

lemma entropy_margin:
  fixes t :: real
  assumes "pool_size u password \<noteq> 0" and "t = 28 \<or> t = 36 \<or> t = 60 \<or> t = 128"
  shows "entropy n (pool_size u password) < t - 1 / 8 \<or>
         t + 1 / 8 \<le> entropy n (pool_size u password) \<or>
         pool_size u password = 32 \<and> n = 12 \<and> t = 60"
proof -
  from pool_size_values [of u password] assms(1)
  consider "pool_size u password = 10" |
    "pool_size u password = 26" |
    "pool_size u password = 32" |
    "pool_size u password = 36" |
    "pool_size u password = 42" |
    "pool_size u password = 52" |
    "pool_size u password = 58" |
    "pool_size u password = 62" |
    "pool_size u password = 68" |
    "pool_size u password = 84" |
    "pool_size u password = 94"
    by auto
  then show ?thesis
  proof cases
    case 1
    with assms(2) margin_10 [of n]
    show ?thesis by auto
  next
    case 2
    with assms(2) margin_26 [of n]
    show ?thesis by auto
  next
    case 3
    show ?thesis
    proof (cases "n = 12")
      case True
      with 3 assms(2) margin_32(1,2,4) [of n]
      show ?thesis by auto
    next
      case False
      with 3 assms(2) margin_32 [of n]
      show ?thesis by auto
    qed
  next
    case 4
    with assms(2) margin_36 [of n]
    show ?thesis by auto
  next
    case 5
    with assms(2) margin_42 [of n]
    show ?thesis by auto
  next
    case 6
    with assms(2) margin_52 [of n]
    show ?thesis by auto
  next
    case 7
    with assms(2) margin_58 [of n]
    show ?thesis by auto
  next
    case 8
    with assms(2) margin_62 [of n]
    show ?thesis by auto
  next
    case 9
    with assms(2) margin_68 [of n]
    show ?thesis by auto
  next
    case 10
    with assms(2) margin_84 [of n]
    show ?thesis by auto
  next
    case 11
    with assms(2) margin_94 [of n]
    show ?thesis by auto
  qed
qed

section \<open>The strength estimate\<close>

lemma four_classes_very_strong:
  assumes "length password = 20"
    and "list_ex (\<lambda>c. c \<in> set ascii_uppercase) password"
    and "list_ex (\<lambda>c. c \<in> set ascii_lowercase) password"
    and "list_ex (\<lambda>c. c \<in> set digits) password"
    and "list_ex (\<lambda>c. c \<in> set punctuation) password"
  shows "pool_size u password = 94" and "calculate_strength u password = (4, ''Very Strong'')"
proof -
  have "list_ex (isupper u) password"
    using assms(2) by (rule list_ex_mono) (rule class_isupper)
  moreover have "list_ex (islower u) password"
    using assms(3) by (rule list_ex_mono) (rule class_islower)
  moreover have "list_ex (isdigit u) password"
    using assms(4) by (rule list_ex_mono) (rule class_isdigit)
  ultimately show p: "pool_size u password = 94"
    using assms(5) by (simp add: pool_size_sum)
  have "password \<noteq> []" using assms(1) by auto
  then have "calculate_strength u password = score_entropy (entropy 20 94)"
    using p assms(1) by (simp add: strength_nonempty)
  also have "\<dots> = (4, ''Very Strong'')"
    by (simp add: score_entropy_nat)
  finally show "calculate_strength u password = (4, ''Very Strong'')" .
qed

text \<open>
  Two passwords of the specification's examples: six lowercase letters have pool 26 and
  an entropy near 28.2, three letters and three digits pool 36 and an entropy near 31.0;
  both score 1, Fair.
\<close>

lemma pool_examples:
  "pool_size u (py_str ''aaaaaa'') = 26"
  "pool_size u (py_str ''abc123'') = 36"
  by (simp_all add: pool_size_sum py_str_def isupper_def islower_def isdigit_def
      latin1_upper_def latin1_lower_def latin1_digit_def in_punctuation)

lemma length_examples:
  "length (py_str ''aaaaaa'') = 6" "length (py_str ''abc123'') = 6"
  by (simp_all add: py_str_def)

lemma strength_examples:
  "calculate_strength u (py_str ''aaaaaa'') = (1, ''Fair'')"
  "calculate_strength u (py_str ''abc123'') = (1, ''Fair'')"
proof -
  have "calculate_strength u (py_str ''aaaaaa'')
      = score_entropy (entropy (length (py_str ''aaaaaa'')) (pool_size u (py_str ''aaaaaa'')))"
    by (rule strength_nonempty) (simp_all add: pool_examples, simp add: py_str_def)
  also have "\<dots> = score_entropy (entropy 6 26)"
    by (simp only: length_examples pool_examples)
  also have "\<dots> = (1, ''Fair'')" by (simp add: score_entropy_nat)
  finally show "calculate_strength u (py_str ''aaaaaa'') = (1, ''Fair'')" .
  have "calculate_strength u (py_str ''abc123'')
      = score_entropy (entropy (length (py_str ''abc123'')) (pool_size u (py_str ''abc123'')))"
    by (rule strength_nonempty) (simp_all add: pool_examples, simp add: py_str_def)
  also have "\<dots> = score_entropy (entropy 6 36)"
    by (simp only: length_examples pool_examples)
  also have "\<dots> = (1, ''Fair'')" by (simp add: score_entropy_nat)
  finally show "calculate_strength u (py_str ''abc123'') = (1, ''Fair'')" .
qed

text \<open>
  Claim C2, as stated: the pool gains 26 exactly when an uppercase Latin letter is
  present, 26 exactly when a lowercase Latin letter is present, 10 exactly when a
  decimal digit is present and 32 exactly when a punctuation character is present. It
  fails on the two-character password U+00B5 U+00B2 (micro sign, superscript two):
  \<open>islower\<close> accepts the first and \<open>isdigit\<close> the second, so the program's pool is 36,
  though the password holds no Latin letter and no decimal digit.
\<close>

theorem pool_size_counterexample:
  "pool_size latin1_only [0xB5, 0xB2] = 36 \<and> spec_pool_size [0xB5, 0xB2] = 0"
  by (simp add: pool_size_sum spec_pool_size_def isupper_def islower_def isdigit_def
      latin1_upper_def latin1_lower_def latin1_digit_def
      in_ascii_uppercase in_ascii_lowercase in_digits in_punctuation)

text \<open>
  Claim C2, amended. The pool gains 26 exactly when some character is uppercase for
  \<open>str.isupper\<close>, 26 exactly when some character is lowercase for \<open>str.islower\<close>, 10
  exactly when some character is a digit for \<open>str.isdigit\<close>, and 32 exactly when some
  character of \<open>string.punctuation\<close> is present, and the contributions add up. For a
  password of ASCII characters this is the pool of the specification's four classes.
  When the password is not empty and the pool is not zero, the score is that of the
  entropy \<open>len(password) * log2(pool_size)\<close>. A password of length 20 with a character of
  each of the four classes has pool size 94 and scores 4, Very Strong.
\<close>

theorem pool_size_python_classes:
  "pool_size u password =
     (if list_ex (isupper u) password then 26 else 0) +
     (if list_ex (islower u) password then 26 else 0) +
     (if list_ex (isdigit u) password then 10 else 0) +
     (if list_ex (\<lambda>c. c \<in> set punctuation) password then 32 else 0) \<and>
   (list_all (\<lambda>c. c < 0x80) password \<longrightarrow> pool_size u password = spec_pool_size password) \<and>
   (password \<noteq> [] \<and> pool_size u password \<noteq> 0 \<longrightarrow>
      calculate_strength u password =
        score_entropy (real (length password) * log 2 (real (pool_size u password)))) \<and>
   (length password = 20 \<and>
    list_ex (\<lambda>c. c \<in> set ascii_uppercase) password \<and>
    list_ex (\<lambda>c. c \<in> set ascii_lowercase) password \<and>
    list_ex (\<lambda>c. c \<in> set digits) password \<and>
    list_ex (\<lambda>c. c \<in> set punctuation) password \<longrightarrow>
      pool_size u password = 94 \<and> calculate_strength u password = (4, ''Very Strong''))"
proof (intro conjI impI)
  show "pool_size u password =
     (if list_ex (isupper u) password then 26 else 0) +
     (if list_ex (islower u) password then 26 else 0) +
     (if list_ex (isdigit u) password then 10 else 0) +
     (if list_ex (\<lambda>c. c \<in> set punctuation) password then 32 else 0)"
    by (rule pool_size_sum)
next
  assume "list_all (\<lambda>c. c < 0x80) password"
  then show "pool_size u password = spec_pool_size password"
    by (rule pool_size_ascii)
next
  assume "password \<noteq> [] \<and> pool_size u password \<noteq> 0"
  then show "calculate_strength u password =
      score_entropy (real (length password) * log 2 (real (pool_size u password)))"
    by (simp add: strength_nonempty entropy_def log2_def)
next
  assume a: "length password = 20 \<and>
    list_ex (\<lambda>c. c \<in> set ascii_uppercase) password \<and>
    list_ex (\<lambda>c. c \<in> set ascii_lowercase) password \<and>
    list_ex (\<lambda>c. c \<in> set digits) password \<and>
    list_ex (\<lambda>c. c \<in> set punctuation) password"
  then show "pool_size u password = 94"
    by (intro four_classes_very_strong(1)) simp_all
  from a show "calculate_strength u password = (4, ''Very Strong'')"
    by (intro four_classes_very_strong(2)) simp_all
qed

theorem pool_size_python_classes_witness:
  "list_all (\<lambda>c. c < 0x80) demo_password \<and>
   pool_size latin1_only demo_password = spec_pool_size demo_password \<and>
   demo_password \<noteq> [] \<and> pool_size latin1_only demo_password \<noteq> 0 \<and>
   length demo_password = 20 \<and>
   list_ex (\<lambda>c. c \<in> set ascii_uppercase) demo_password \<and>
   list_ex (\<lambda>c. c \<in> set ascii_lowercase) demo_password \<and>
   list_ex (\<lambda>c. c \<in> set digits) demo_password \<and>
   list_ex (\<lambda>c. c \<in> set punctuation) demo_password \<and>
   pool_size latin1_only demo_password = 94 \<and>
   calculate_strength latin1_only demo_password = (4, ''Very Strong'')"
proof -
  have a: "list_all (\<lambda>c. c < 0x80) demo_password" by code_simp
  have n: "length demo_password = 20" by code_simp
  have c: "list_ex (\<lambda>c. c \<in> set ascii_uppercase) demo_password"
    "list_ex (\<lambda>c. c \<in> set ascii_lowercase) demo_password"
    "list_ex (\<lambda>c. c \<in> set digits) demo_password"
    "list_ex (\<lambda>c. c \<in> set punctuation) demo_password"
    by code_simp+
  from n have ne: "demo_password \<noteq> []" by auto
  from pool_size_python_classes [of latin1_only demo_password] a n c ne
  show ?thesis by simp
qed

text \<open>
  Claim C3. For a non-empty password with a pool that is not zero, the result is the
  score and label of its entropy, by half-open intervals with their lower bound
  included: below 28 it is 0, Weak; from 28 and below 36 it is 1, Fair; from 36 and
  below 60 it is 2, Good; from 60 and below 128 it is 3, Strong; from 128 on it is 4,
  Very Strong. An entropy of exactly 28, 36, 60 or 128 gets the higher score.
\<close>

theorem strength_thresholds:
  "(password \<noteq> [] \<and> pool_size u password \<noteq> 0 \<longrightarrow>
      calculate_strength u password =
        score_entropy (entropy (length password) (pool_size u password))) \<and>
   (e < 28 \<longrightarrow> score_entropy e = (0, ''Weak'')) \<and>
   (28 \<le> e \<and> e < 36 \<longrightarrow> score_entropy e = (1, ''Fair'')) \<and>
   (36 \<le> e \<and> e < 60 \<longrightarrow> score_entropy e = (2, ''Good'')) \<and>
   (60 \<le> e \<and> e < 128 \<longrightarrow> score_entropy e = (3, ''Strong'')) \<and>
   (128 \<le> e \<longrightarrow> score_entropy e = (4, ''Very Strong'')) \<and>
   score_entropy 28 = (1, ''Fair'') \<and> score_entropy 36 = (2, ''Good'') \<and>
   score_entropy 60 = (3, ''Strong'') \<and> score_entropy 128 = (4, ''Very Strong'')"
  by (simp add: strength_nonempty score_entropy_table)

text \<open>
  One entropy in each interval: five, six and eight lowercase letters, twelve symbols
  and twenty characters of pool 94. Twelve symbols have an entropy of exactly 60 bits
  and score 3, not 2.
\<close>

lemma entropy_bands:
  "entropy 5 26 < 28"
  "28 \<le> entropy 6 26 \<and> entropy 6 26 < 36"
  "36 \<le> entropy 8 26 \<and> entropy 8 26 < 60"
  "128 \<le> entropy 20 94"
  using entropy_less_iff [of 26 5 28] entropy_less_iff [of 26 6 28] entropy_less_iff [of 26 6 36]
    entropy_less_iff [of 26 8 36] entropy_less_iff [of 26 8 60] entropy_less_iff [of 94 20 128]
  by simp_all

theorem strength_thresholds_witness:
  "symbols12 \<noteq> [] \<and> pool_size latin1_only symbols12 \<noteq> 0 \<and>
   entropy (length symbols12) (pool_size latin1_only symbols12) = 60 \<and>
   (60::real) \<le> 60 \<and> (60::real) < 128 \<and>
   calculate_strength latin1_only symbols12 = (3, ''Strong'') \<and>
   entropy 5 26 < 28 \<and> score_entropy (entropy 5 26) = (0, ''Weak'') \<and>
   28 \<le> entropy 6 26 \<and> entropy 6 26 < 36 \<and> score_entropy (entropy 6 26) = (1, ''Fair'') \<and>
   36 \<le> entropy 8 26 \<and> entropy 8 26 < 60 \<and> score_entropy (entropy 8 26) = (2, ''Good'') \<and>
   128 \<le> entropy 20 94 \<and> score_entropy (entropy 20 94) = (4, ''Very Strong'')"
proof -
  have ne: "symbols12 \<noteq> []" by (simp add: symbols12_def)
  have p: "pool_size latin1_only symbols12 = 32" by code_simp
  have n: "length symbols12 = 12" by (simp add: symbols12_def)
  have e: "entropy (length symbols12) (pool_size latin1_only symbols12) = 60"
    by (simp add: p n entropy_12_32)
  from strength_thresholds [of symbols12 latin1_only 60] ne p e
  have s: "calculate_strength latin1_only symbols12 = (3, ''Strong'')" by simp
  from strength_thresholds [of symbols12 latin1_only "entropy 5 26"] entropy_bands(1)
  have w: "score_entropy (entropy 5 26) = (0, ''Weak'')" by blast
  from strength_thresholds [of symbols12 latin1_only "entropy 6 26"] entropy_bands(2)
  have f: "score_entropy (entropy 6 26) = (1, ''Fair'')" by blast
  from strength_thresholds [of symbols12 latin1_only "entropy 8 26"] entropy_bands(3)
  have g: "score_entropy (entropy 8 26) = (2, ''Good'')" by blast
  from strength_thresholds [of symbols12 latin1_only "entropy 20 94"] entropy_bands(4)
  have v: "score_entropy (entropy 20 94) = (4, ''Very Strong'')" by blast
  from ne p e s w f g v entropy_bands show ?thesis by simp
qed

text \<open>
  Claim C4, as stated: a character outside the four recognized classes, such as a
  digit outside ASCII, adds to no pool, and a password of such characters alone gets
  0, Weak. It fails on nine superscript digits (U+00B2, U+00B3, U+00B9, three times):
  none is in a class of the specification, \<open>isdigit\<close> accepts each, the pool is 10, the
  entropy \<open>9 * log2(10)\<close> is near 29.9, and the result is 1, Fair.
\<close>

theorem superscript_digits_counterexample:
  "\<not> list_ex spec_recognized [0xB2, 0xB3, 0xB9, 0xB2, 0xB3, 0xB9, 0xB2, 0xB3, 0xB9] \<and>
   calculate_strength latin1_only [0xB2, 0xB3, 0xB9, 0xB2, 0xB3, 0xB9, 0xB2, 0xB3, 0xB9]
     = (1, ''Fair'')"
proof -
  let ?pw = "[0xB2, 0xB3, 0xB9, 0xB2, 0xB3, 0xB9, 0xB2, 0xB3, 0xB9] :: pystr"
  have r: "\<not> list_ex spec_recognized ?pw"
    by (simp add: spec_recognized_def in_ascii_uppercase in_ascii_lowercase in_digits
        in_punctuation)
  have p: "pool_size latin1_only ?pw = 10"
    by (simp add: pool_size_sum isupper_def islower_def isdigit_def
        latin1_upper_def latin1_lower_def latin1_digit_def in_punctuation)
  have n: "length ?pw = 9" by simp
  have "calculate_strength latin1_only ?pw
      = score_entropy (entropy (length ?pw) (pool_size latin1_only ?pw))"
    by (rule strength_nonempty) (simp_all add: p)
  also have "\<dots> = score_entropy (entropy 9 10)" by (simp only: n p)
  also have "\<dots> = (1, ''Fair'')" by (simp add: score_entropy_nat)
  finally show ?thesis using r by simp
qed

text \<open>
  Claim C4, amended. A character that none of the four tests of the program accepts
  (not uppercase for \<open>str.isupper\<close>, not lowercase for \<open>str.islower\<close>, not a digit for
  \<open>str.isdigit\<close>, not in \<open>string.punctuation\<close>) adds to no pool: the pool is the same
  with the character and without it. A non-empty password of such characters alone gets
  0, Weak. Among ASCII characters these are the characters outside the four classes of
  the specification; the space, the tab and the line feed are three of them.
\<close>

theorem uncounted_characters:
  "(\<not> counted u c \<longrightarrow> pool_size u (xs @ [c] @ ys) = pool_size u (xs @ ys)) \<and>
   (password \<noteq> [] \<and> \<not> list_ex (counted u) password \<longrightarrow>
      calculate_strength u password = (0, ''Weak'')) \<and>
   (c < 0x80 \<longrightarrow> counted u c = spec_recognized c) \<and>
   \<not> counted u 0x20 \<and> \<not> counted u 0x09 \<and> \<not> counted u 0x0A"
  by (simp add: pool_size_uncounted pool_size_none_counted counted_ascii whitespace_not_counted
      calculate_strength_def del: append_Cons append_Nil)

theorem uncounted_characters_witness:
  "\<not> counted latin1_only 0x20 \<and>
   pool_size latin1_only ([0x41] @ [0x20] @ [0x31]) = pool_size latin1_only ([0x41] @ [0x31]) \<and>
   [0x20, 0x09, 0x20] \<noteq> ([] :: pystr) \<and> \<not> list_ex (counted latin1_only) [0x20, 0x09, 0x20] \<and>
   calculate_strength latin1_only [0x20, 0x09, 0x20] = (0, ''Weak'') \<and>
   (0x20::nat) < 0x80 \<and> counted latin1_only 0x20 = spec_recognized 0x20"
proof -
  have c: "\<not> counted latin1_only 0x20" "\<not> counted latin1_only 0x09"
    by (rule whitespace_not_counted)+
  then have l: "\<not> list_ex (counted latin1_only) [0x20, 0x09, 0x20]" by simp
  from uncounted_characters [of latin1_only "0x20" "[0x41]" "[0x31]" "[0x20, 0x09, 0x20]"] c l
  show ?thesis by (simp del: append_Cons append_Nil)
qed

text \<open>
  Claim C5. The empty password gets exactly 0, Too Short, and no other password gets the
  label Too Short: a non-empty password with score 0 is labelled Weak.
\<close>

theorem empty_password_too_short:
  "calculate_strength u [] = (0, ''Too Short'') \<and>
   (snd (calculate_strength u password) = ''Too Short'' \<longleftrightarrow> password = [])"
  by (simp add: calculate_strength_def score_entropy_def)

text \<open>
  Claim C10. The score never drops when a character is appended: the score of
  \<open>p + c\<close> is at least the score of \<open>p\<close>. The pool cannot shrink and the length grows, so
  the entropy cannot shrink, and the score grows with the entropy.
\<close>

theorem score_monotone_append:
  "fst (calculate_strength u p) \<le> fst (calculate_strength u (p @ [c]))"
proof (cases "p = [] \<or> pool_size u p = 0")
  case True
  then have "fst (calculate_strength u p) = 0"
    by (auto simp: calculate_strength_def)
  moreover have "0 \<le> fst (calculate_strength u (p @ [c]))"
    by (simp add: calculate_strength_def score_entropy_nonneg)
  ultimately show ?thesis by simp
next
  case False
  then have p: "p \<noteq> []" "0 < pool_size u p" by simp_all
  have le: "pool_size u p \<le> pool_size u (p @ [c])" by (rule pool_size_append_mono)
  with p have p': "pool_size u (p @ [c]) \<noteq> 0" by simp
  have "entropy (length p) (pool_size u p) \<le> entropy (length (p @ [c])) (pool_size u (p @ [c]))"
    using p(2) le by (rule entropy_mono) simp
  then show ?thesis
    using p p' by (simp add: calculate_strength_def score_entropy_mono)
qed

end
